theory Spec2Isabelle
  imports Complex_Main
begin

section \<open>The perceptron notebook: values, errors, printed trace\<close>

text \<open>
  The notebook \<^verbatim>\<open>notebooks/ann-introduction.ipynb\<close> defines three Python functions:
  \<^verbatim>\<open>perceptron\<close>, \<^verbatim>\<open>adjust_weights\<close> and \<^verbatim>\<open>train_perceptron\<close>.

  Numbers. Python's \<^verbatim>\<open>int\<close> and \<^verbatim>\<open>float\<close> are modelled by \<^typ>\<open>real\<close>: arithmetic is exact.
  \<^verbatim>\<open>np.dot\<close> sums in an order that the numerical library chooses, so the rounding of
  \<^verbatim>\<open>perceptron\<close> is not a function of the source text; the three functions are therefore
  given in exact arithmetic. The scalar arithmetic of \<^verbatim>\<open>adjust_weights\<close> is rounded by
  IEEE 754 alone; it is written out a second time, with the binary64 rounding of every
  operation, in the section on binary64 below.

  Sequences. A Python list and a one-dimensional numpy array are both a \<^typ>\<open>real list\<close>.

  Errors. The exceptions the three functions can raise are values of \<open>error\<close>:
  \<^verbatim>\<open>np.dot\<close> raises \<^verbatim>\<open>ValueError\<close> on one-dimensional arguments of different lengths,
  a subscript out of range raises \<^verbatim>\<open>IndexError\<close>.
\<close>

datatype error = ValueError | IndexError

text \<open>What a call returns: \<^verbatim>\<open>None\<close> (a body that ends without \<^verbatim>\<open>return\<close>) or an array.\<close>

datatype pyval = PyNone | PyArray "real list"

text \<open>
  The two \<^verbatim>\<open>print\<close> calls of \<^verbatim>\<open>train_perceptron\<close>, with the values they format:
  \<^verbatim>\<open>print(f'pre-batch weights are: {weights}')\<close> and
  \<^verbatim>\<open>print(f'post-batch weights are: {weights}, output is: {output}, expected is {input_labels}')\<close>.
\<close>

datatype event =
    PreBatch "real list"
  | PostBatch "real list" "real list" "real list"

section \<open>perceptron\<close>

text \<open>
  \<^verbatim>\<open>np.dot(a, b)\<close> on one-dimensional arrays: the sum of the products, and
  \<^verbatim>\<open>ValueError\<close> (shapes not aligned) when the lengths differ.
\<close>

definition np_dot :: "real list \<Rightarrow> real list \<Rightarrow> error + real" where
  "np_dot a b =
     (if length a \<noteq> length b then Inl ValueError
      else Inr (sum_list (map2 (*) a b)))"

text \<open>
  \<^verbatim>\<open>
  def perceptron(input, weights, threshold):
      input_vector = np.array(input)
      weights = np.array(weights)
      bias_weight = .2
      activation_level = np.dot(input_vector, weights) + (bias_weight * 1)
      activation_level
      if activation_level >= threshold:
          perceptron_output = 1
      else:
          perceptron_output = 0
      return perceptron_output
  \<close>
\<close>

definition perceptron :: "real list \<Rightarrow> real list \<Rightarrow> real \<Rightarrow> error + real" where
  "perceptron input weights threshold =
     (let bias_weight = 2 / 10 in
      case np_dot input weights of
        Inl e \<Rightarrow> Inl e
      | Inr d \<Rightarrow>
          (let activation_level = d + (bias_weight * 1) in
           if activation_level \<ge> threshold then Inr 1 else Inr 0))"

section \<open>adjust_weights\<close>

text \<open>
  \<^verbatim>\<open>
  def adjust_weights(perceptron_output, expected_output, given_input, input_weights,
                     learning_rate=1):
      new_weights = []
      for i, x in enumerate(given_input):
          new_weight = input_weights[i] + (expected_output - perceptron_output) * x * learning_rate
          new_weights.append(new_weight)
      return np.array(new_weights)
  \<close>
  The loop is \<open>adjust_weights_loop\<close>: \<open>i\<close> is the index \<^verbatim>\<open>enumerate\<close> has reached, the list
  argument is what is left of \<^verbatim>\<open>given_input\<close>, and \<open>new_weights\<close> is the list built so far.
  \<^verbatim>\<open>input_weights[i]\<close> raises \<^verbatim>\<open>IndexError\<close> when \<open>i\<close> is not below the length. The default
  \<^verbatim>\<open>learning_rate=1\<close> is passed explicitly by the callers of the model.
\<close>

fun adjust_weights_loop ::
  "real \<Rightarrow> real \<Rightarrow> real list \<Rightarrow> real \<Rightarrow> nat \<Rightarrow> real list \<Rightarrow> real list \<Rightarrow> error + real list"
where
  "adjust_weights_loop perceptron_output expected_output input_weights learning_rate i [] new_weights =
     Inr new_weights"
| "adjust_weights_loop perceptron_output expected_output input_weights learning_rate i (x # rest) new_weights =
     (if i < length input_weights then
        (let new_weight =
               input_weights ! i + (expected_output - perceptron_output) * x * learning_rate
         in adjust_weights_loop perceptron_output expected_output input_weights learning_rate
              (Suc i) rest (new_weights @ [new_weight]))
      else Inl IndexError)"

definition adjust_weights ::
  "real \<Rightarrow> real \<Rightarrow> real list \<Rightarrow> real list \<Rightarrow> real \<Rightarrow> error + real list"
where
  "adjust_weights perceptron_output expected_output given_input input_weights learning_rate =
     adjust_weights_loop perceptron_output expected_output input_weights learning_rate
       0 given_input []"

section \<open>train_perceptron\<close>

text \<open>
  \<^verbatim>\<open>
  def train_perceptron(input_features, input_labels, initial_weights,
                       activation_threshold, num_batches, learning_rate=1):
      weights = initial_weights
      for batch_num in range(0,num_batches):
          print(f'pre-batch weights are: {weights}')
          output = []
          for datum in input_features:
              output.append(perceptron(datum, weights, activation_threshold))
          for idx,datum  in enumerate(input_features):
              weights = adjust_weights(output[idx], input_labels[idx], datum, weights,learning_rate)
          print(f'post-batch weights are: {weights}, output is: {output}, expected is {input_labels}')
  \<close>
  The first inner loop is \<open>output_loop\<close> (the list argument is what is left of
  \<^verbatim>\<open>input_features\<close>), the second is \<open>update_loop\<close>, the outer one is \<open>batch_loop\<close>, whose
  first argument counts the batches still to run. Standard output is a list of events,
  passed through and extended; an exception leaves the function at once, with what was
  printed before it. The body has no \<^verbatim>\<open>return\<close>: a call that ends normally returns
  \<^verbatim>\<open>None\<close>.
\<close>

fun output_loop :: "real list list \<Rightarrow> real list \<Rightarrow> real \<Rightarrow> real list \<Rightarrow> error + real list" where
  "output_loop [] weights activation_threshold output = Inr output"
| "output_loop (datum # rest) weights activation_threshold output =
     (case perceptron datum weights activation_threshold of
        Inl e \<Rightarrow> Inl e
      | Inr out \<Rightarrow> output_loop rest weights activation_threshold (output @ [out]))"

fun update_loop ::
  "nat \<Rightarrow> real list list \<Rightarrow> real list \<Rightarrow> real list \<Rightarrow> real \<Rightarrow> real list \<Rightarrow> error + real list"
where
  "update_loop idx [] output input_labels learning_rate weights = Inr weights"
| "update_loop idx (datum # rest) output input_labels learning_rate weights =
     (if \<not> idx < length output then Inl IndexError
      else if \<not> idx < length input_labels then Inl IndexError
      else
        (case adjust_weights (output ! idx) (input_labels ! idx) datum weights learning_rate of
           Inl e \<Rightarrow> Inl e
         | Inr weights' \<Rightarrow> update_loop (Suc idx) rest output input_labels learning_rate weights'))"

fun batch_loop ::
  "nat \<Rightarrow> real list list \<Rightarrow> real list \<Rightarrow> real \<Rightarrow> real \<Rightarrow> real list \<Rightarrow> event list
     \<Rightarrow> (error + pyval) \<times> event list"
where
  "batch_loop 0 input_features input_labels activation_threshold learning_rate weights out =
     (Inr PyNone, out)"
| "batch_loop (Suc n) input_features input_labels activation_threshold learning_rate weights out =
     (let out1 = out @ [PreBatch weights] in
      case output_loop input_features weights activation_threshold [] of
        Inl e \<Rightarrow> (Inl e, out1)
      | Inr output \<Rightarrow>
          (case update_loop 0 input_features output input_labels learning_rate weights of
             Inl e \<Rightarrow> (Inl e, out1)
           | Inr weights' \<Rightarrow>
               batch_loop n input_features input_labels activation_threshold learning_rate weights'
                 (out1 @ [PostBatch weights' output input_labels])))"

text \<open>\<^verbatim>\<open>range(0, num_batches)\<close> has \<open>nat num_batches\<close> elements: none when it is negative.\<close>

definition train_perceptron ::
  "real list list \<Rightarrow> real list \<Rightarrow> real list \<Rightarrow> real \<Rightarrow> int \<Rightarrow> real
     \<Rightarrow> (error + pyval) \<times> event list"
where
  "train_perceptron input_features input_labels initial_weights activation_threshold
       num_batches learning_rate =
     batch_loop (nat num_batches) input_features input_labels activation_threshold
       learning_rate initial_weights []"

section \<open>adjust_weights on a store of objects\<close>

text \<open>
  Whether \<^verbatim>\<open>adjust_weights\<close> changes the sequence it is given is a question about objects,
  not values. Here the same body is written over a store: object number \<open>a\<close> of the store
  \<open>s\<close> is the sequence \<open>s ! a\<close>, a variable holds an address, allocation appends a new object
  (so its address is fresh), \<^verbatim>\<open>append\<close> updates the object in place.

  \<^verbatim>\<open>new_weights = []\<close> allocates; \<^verbatim>\<open>input_weights[i]\<close> reads the store as it is at that
  moment; \<^verbatim>\<open>new_weights.append(new_weight)\<close> writes the store; \<^verbatim>\<open>np.array(new_weights)\<close>
  allocates the array that is returned, a copy of the list. The iterator of
  \<^verbatim>\<open>enumerate(given_input)\<close> yields the elements of the object \<^verbatim>\<open>given_input\<close>; the loop writes
  to the fresh list only, so these are the elements at the time of the call.
\<close>

type_synonym addr = nat

type_synonym store = "real list list"

definition alloc :: "store \<Rightarrow> real list \<Rightarrow> addr \<times> store" where
  "alloc s v = (length s, s @ [v])"

fun adjust_weights_store_loop ::
  "real \<Rightarrow> real \<Rightarrow> addr \<Rightarrow> real \<Rightarrow> addr \<Rightarrow> nat \<Rightarrow> real list \<Rightarrow> store \<Rightarrow> (error + unit) \<times> store"
where
  "adjust_weights_store_loop perceptron_output expected_output input_weights learning_rate
       new_weights i [] s = (Inr (), s)"
| "adjust_weights_store_loop perceptron_output expected_output input_weights learning_rate
       new_weights i (x # rest) s =
     (if i < length (s ! input_weights) then
        (let new_weight =
               s ! input_weights ! i + (expected_output - perceptron_output) * x * learning_rate
         in adjust_weights_store_loop perceptron_output expected_output input_weights learning_rate
              new_weights (Suc i) rest (s[new_weights := s ! new_weights @ [new_weight]]))
      else (Inl IndexError, s))"

definition adjust_weights_store ::
  "store \<Rightarrow> real \<Rightarrow> real \<Rightarrow> addr \<Rightarrow> addr \<Rightarrow> real \<Rightarrow> (error + addr) \<times> store"
where
  "adjust_weights_store s perceptron_output expected_output given_input input_weights learning_rate =
     (let (new_weights, s1) = alloc s [] in
      case adjust_weights_store_loop perceptron_output expected_output input_weights learning_rate
             new_weights 0 (s1 ! given_input) s1 of
        (Inl e, s2) \<Rightarrow> (Inl e, s2)
      | (Inr u, s2) \<Rightarrow> (let (arr, s3) = alloc s2 (s2 ! new_weights) in (Inr arr, s3)))"

section \<open>adjust_weights in binary64\<close>

text \<open>
  A Python \<^verbatim>\<open>float\<close> is an IEEE 754 binary64 number: 53 significant bits, exponents from
  \<open>-1022\<close> to \<open>1023\<close>, subnormal numbers below, two infinities, and not-a-number. \<open>Finite x\<close>
  is the number of value \<open>x\<close>, \<open>Infinite s\<close> the infinity that is negative iff \<open>s\<close>. The two
  zeros are one value here (Python's \<^verbatim>\<open>==\<close> does not tell them apart either).

  Each of \<^verbatim>\<open>+\<close>, \<^verbatim>\<open>-\<close> and \<^verbatim>\<open>*\<close> returns the exact result rounded to the nearest binary64
  number, ties to the one with an even significand, and overflows to an infinity
  (\<open>b64_round\<close>). A decimal literal such as \<^verbatim>\<open>.2\<close> is rounded the same way. The \<^verbatim>\<open>int\<close>
  arguments of the notebook (\<open>0\<close>, \<open>1\<close>) are the floats of the same value: arithmetic on
  integers below \<open>2^53\<close> is exact in binary64.

  \<open>bit_length n\<close> is the number of binary digits of \<open>n > 0\<close>, so that \<open>floor_log2 x\<close> is the
  integer \<open>e\<close> with \<open>2^e \<le> x < 2^(e+1)\<close>, for \<open>x > 0\<close>.
\<close>

datatype binary64 = Finite real | Infinite bool | NaN

function bit_length :: "int \<Rightarrow> int" where
  "bit_length n = (if n \<le> 0 then 0 else 1 + bit_length (n div 2))"
  by pat_completeness auto
termination
  by (relation "measure nat") auto

declare bit_length.simps [simp del]

definition floor_log2 :: "real \<Rightarrow> int" where
  "floor_log2 x =
     (if 1 \<le> x then bit_length \<lfloor>x\<rfloor> - 1 else - bit_length (\<lceil>1 / x\<rceil> - 1))"

definition round_half_even :: "real \<Rightarrow> int" where
  "round_half_even x =
     (let n = \<lfloor>x\<rfloor>; r = x - of_int n
      in if r < 1 / 2 then n else if 1 / 2 < r then n + 1 else if even n then n else n + 1)"

definition b64_round :: "real \<Rightarrow> binary64" where
  "b64_round x =
     (if x = 0 then Finite 0
      else
        (let e = max (floor_log2 \<bar>x\<bar>) (- 1022);
             ulp = 2 powi (e - 52);
             y = of_int (round_half_even (x / ulp)) * ulp
         in if 2 powi 1024 \<le> \<bar>y\<bar> then Infinite (x < 0) else Finite y))"

fun b64_add :: "binary64 \<Rightarrow> binary64 \<Rightarrow> binary64" where
  "b64_add (Finite x) (Finite y) = b64_round (x + y)"
| "b64_add NaN _ = NaN"
| "b64_add _ NaN = NaN"
| "b64_add (Infinite s) (Infinite t) = (if s = t then Infinite s else NaN)"
| "b64_add (Infinite s) (Finite y) = Infinite s"
| "b64_add (Finite x) (Infinite t) = Infinite t"

fun b64_neg :: "binary64 \<Rightarrow> binary64" where
  "b64_neg (Finite x) = Finite (- x)"
| "b64_neg (Infinite s) = Infinite (\<not> s)"
| "b64_neg NaN = NaN"

definition b64_sub :: "binary64 \<Rightarrow> binary64 \<Rightarrow> binary64" where
  "b64_sub a b = b64_add a (b64_neg b)"

fun b64_mul :: "binary64 \<Rightarrow> binary64 \<Rightarrow> binary64" where
  "b64_mul (Finite x) (Finite y) = b64_round (x * y)"
| "b64_mul NaN _ = NaN"
| "b64_mul _ NaN = NaN"
| "b64_mul (Infinite s) (Infinite t) = Infinite (s \<noteq> t)"
| "b64_mul (Infinite s) (Finite y) = (if y = 0 then NaN else Infinite (s \<noteq> (y < 0)))"
| "b64_mul (Finite x) (Infinite t) = (if x = 0 then NaN else Infinite ((x < 0) \<noteq> t))"

text \<open>
  The body of \<^verbatim>\<open>adjust_weights\<close> once more, each operation of
  \<^verbatim>\<open>input_weights[i] + (expected_output - perceptron_output) * x * learning_rate\<close>
  rounded, in Python's order of evaluation.
\<close>

fun adjust_weights_b64_loop ::
  "binary64 \<Rightarrow> binary64 \<Rightarrow> binary64 list \<Rightarrow> binary64 \<Rightarrow> nat \<Rightarrow> binary64 list \<Rightarrow> binary64 list
     \<Rightarrow> error + binary64 list"
where
  "adjust_weights_b64_loop perceptron_output expected_output input_weights learning_rate i [] new_weights =
     Inr new_weights"
| "adjust_weights_b64_loop perceptron_output expected_output input_weights learning_rate i (x # rest) new_weights =
     (if i < length input_weights then
        (let new_weight =
               b64_add (input_weights ! i)
                 (b64_mul (b64_mul (b64_sub expected_output perceptron_output) x) learning_rate)
         in adjust_weights_b64_loop perceptron_output expected_output input_weights learning_rate
              (Suc i) rest (new_weights @ [new_weight]))
      else Inl IndexError)"

definition adjust_weights_b64 ::
  "binary64 \<Rightarrow> binary64 \<Rightarrow> binary64 list \<Rightarrow> binary64 list \<Rightarrow> binary64 \<Rightarrow> error + binary64 list"
where
  "adjust_weights_b64 perceptron_output expected_output given_input input_weights learning_rate =
     adjust_weights_b64_loop perceptron_output expected_output input_weights learning_rate
       0 given_input []"

section \<open>The data of the notebook\<close>

text \<open>
  \<^verbatim>\<open>example_input = [1, .2, .1, .05, .2]\<close> and \<^verbatim>\<open>example_weights = [.2, .12, .4, .6, .90]\<close>,
  as exact numbers and as the binary64 numbers Python reads the literals as.
\<close>

definition example_input :: "real list" where
  "example_input = [1, 2 / 10, 1 / 10, 5 / 100, 2 / 10]"

definition example_weights :: "real list" where
  "example_weights = [2 / 10, 12 / 100, 4 / 10, 6 / 10, 90 / 100]"

definition example_input_b64 :: "binary64 list" where
  "example_input_b64 =
     [Finite 1, b64_round (2 / 10), b64_round (1 / 10), b64_round (5 / 100), b64_round (2 / 10)]"

definition example_weights_b64 :: "binary64 list" where
  "example_weights_b64 =
     [b64_round (2 / 10), b64_round (12 / 100), b64_round (4 / 10), b64_round (6 / 10),
      b64_round (90 / 100)]"





section \<open>The operations as the specification words them\<close>

text \<open>
  The specification describes three operations, \<open>evaluate\<close>, \<open>adjust\<close> and \<open>train\<close>. The
  definitions of this section follow its sentences, on well-dimensioned values; the
  theorems compare them with the functions of the notebook.

  \<open>evaluate\<close>: the inner product of the example and the weights, plus the bias, compared
  with the threshold. \<open>adjust\<close>: entry \<open>i\<close> is
  \<open>weights[i] + (expected - observed) * example[i] * learningRate\<close>.
\<close>

definition inner :: "real list \<Rightarrow> real list \<Rightarrow> real" where
  "inner example weights = sum_list (map2 (*) example weights)"

definition evaluate :: "real list \<Rightarrow> real list \<Rightarrow> real \<Rightarrow> real \<Rightarrow> real" where
  "evaluate example weights bias threshold =
     (if inner example weights + bias \<ge> threshold then 1 else 0)"

definition adjust :: "real \<Rightarrow> real \<Rightarrow> real list \<Rightarrow> real list \<Rightarrow> real \<Rightarrow> real list" where
  "adjust observed expected example weights learningRate =
     map2 (\<lambda>w x. w + (expected - observed) * x * learningRate) weights example"

definition batch_outputs :: "real list list \<Rightarrow> real list \<Rightarrow> real \<Rightarrow> real list" where
  "batch_outputs examples weights threshold =
     map (\<lambda>example. evaluate example weights (2 / 10) threshold) examples"

definition batch_chain ::
  "real list list \<Rightarrow> real list \<Rightarrow> real \<Rightarrow> real list \<Rightarrow> real list \<Rightarrow> real list" where
  "batch_chain examples labels learningRate outputs weights =
     foldl (\<lambda>w i. adjust (outputs ! i) (labels ! i) (examples ! i) w learningRate)
       weights [0..<length examples]"

definition batch_step :: "real list list \<Rightarrow> real list \<Rightarrow> real \<Rightarrow> real \<Rightarrow> real list \<Rightarrow> real list" where
  "batch_step examples labels threshold learningRate weights =
     batch_chain examples labels learningRate (batch_outputs examples weights threshold) weights"

text \<open>
  One batch of \<open>train\<close>. Step 1: every example is evaluated against the weights the batch
  starts from (\<open>batch_outputs\<close>; the bias is the notebook's \<open>0.2\<close>). Step 2: \<open>adjust\<close> is applied
  once per example, in input order, each application to the weights the previous one
  produced (\<open>batch_chain\<close>). Step 3: the next batch starts from the end of that chain, so
  batch \<open>k\<close> starts from \<open>weights_at \<dots> k\<close>. \<open>batch_events\<close> is what batch \<open>k\<close> prints.
\<close>

definition weights_at ::
  "real list list \<Rightarrow> real list \<Rightarrow> real \<Rightarrow> real \<Rightarrow> real list \<Rightarrow> nat \<Rightarrow> real list" where
  "weights_at examples labels threshold learningRate initialWeights k =
     (batch_step examples labels threshold learningRate ^^ k) initialWeights"

definition batch_events ::
  "real list list \<Rightarrow> real list \<Rightarrow> real \<Rightarrow> real \<Rightarrow> real list \<Rightarrow> nat \<Rightarrow> event list" where
  "batch_events examples labels threshold learningRate initialWeights k =
     [PreBatch (weights_at examples labels threshold learningRate initialWeights k),
      PostBatch (weights_at examples labels threshold learningRate initialWeights (Suc k))
        (batch_outputs examples
           (weights_at examples labels threshold learningRate initialWeights k) threshold)
        labels]"

section \<open>Reading the printed trace\<close>

text \<open>
  What a caller sees of a run is the trace. \<open>printed_outputs\<close> lists the output vectors of
  the batches, in order. The specification calls a batch converged when its output vector
  equals the label vector; \<open>first_converged\<close> is the number, counted from \<open>1\<close>, of the first
  such batch of a trace.
\<close>

fun printed_outputs :: "event list \<Rightarrow> real list list" where
  "printed_outputs [] = []"
| "printed_outputs (PreBatch weights # es) = printed_outputs es"
| "printed_outputs (PostBatch weights output expected # es) = output # printed_outputs es"


section \<open>The loops in closed form\<close>

lemma perceptron_aligned:
  "length input = length weights \<Longrightarrow>
   perceptron input weights threshold = Inr (evaluate input weights (2 / 10) threshold)"
  by (simp add: perceptron_def np_dot_def evaluate_def inner_def)

lemma perceptron_not_aligned:
  "length input \<noteq> length weights \<Longrightarrow> perceptron input weights threshold = Inl ValueError"
  by (simp add: perceptron_def np_dot_def)

lemma adjust_weights_loop_ok:
  "i + length xs \<le> length iw \<Longrightarrow>
   adjust_weights_loop po eo iw lr i xs acc =
     Inr (acc @ map2 (\<lambda>w x. w + (eo - po) * x * lr) (drop i iw) xs)"
proof (induction xs arbitrary: i acc)
  case Nil
  then show ?case by simp
next
  case (Cons x xs)
  from Cons.prems have i: "i < length iw" and rest: "Suc i + length xs \<le> length iw"
    by simp_all
  from i have d: "drop i iw = iw ! i # drop (Suc i) iw"
    by (simp add: Cons_nth_drop_Suc)
  show ?case
    using i by (simp add: Cons.IH [OF rest] d)
qed

lemma adjust_weights_loop_short:
  "i \<le> length iw \<Longrightarrow> length iw < i + length xs \<Longrightarrow>
   adjust_weights_loop po eo iw lr i xs acc = Inl IndexError"
  by (induction xs arbitrary: i acc) auto

lemma adjust_weights_eq:
  "adjust_weights po eo xs iw lr =
     (if length xs \<le> length iw then Inr (adjust po eo xs iw lr) else Inl IndexError)"
  by (simp add: adjust_weights_def adjust_def adjust_weights_loop_ok adjust_weights_loop_short)

lemma length_adjust: "length (adjust po eo xs iw lr) = min (length iw) (length xs)"
  by (simp add: adjust_def)

lemma output_loop_ok:
  "\<forall>x \<in> set X. length x = length w \<Longrightarrow>
   output_loop X w thr acc = Inr (acc @ batch_outputs X w thr)"
  by (induction X arbitrary: acc) (simp_all add: batch_outputs_def perceptron_aligned)

lemma update_loop_ok:
  assumes "\<forall>x \<in> set rest. length x = length w"
    and "length done + length rest \<le> length out"
    and "length done + length rest \<le> length L"
  shows "update_loop (length done) rest out L lr w =
     Inr (foldl (\<lambda>w i. adjust (out ! i) (L ! i) ((done @ rest) ! i) w lr) w
            [length done..<length done + length rest])"
  using assms
proof (induction rest arbitrary: "done" w)
  case Nil
  then show ?case by simp
next
  case (Cons x rest)
  let ?w' = "adjust (out ! length done) (L ! length done) x w lr"
  have len: "length ?w' = length w"
    using Cons.prems(1) by (simp add: length_adjust)
  have step: "adjust_weights (out ! length done) (L ! length done) x w lr = Inr ?w'"
    using Cons.prems(1) by (simp add: adjust_weights_eq)
  have IH: "update_loop (length (done @ [x])) rest out L lr ?w' =
     Inr (foldl (\<lambda>w i. adjust (out ! i) (L ! i) (((done @ [x]) @ rest) ! i) w lr) ?w'
            [length (done @ [x])..<length (done @ [x]) + length rest])"
    using Cons.prems by (intro Cons.IH) (simp_all add: len)
  have idx: "[length done..<length done + length (x # rest)] =
     length done # [length (done @ [x])..<length (done @ [x]) + length rest]"
    by (subst upt_rec) simp
  have "update_loop (length done) (x # rest) out L lr w =
     update_loop (length (done @ [x])) rest out L lr ?w'"
    using Cons.prems(2,3) by (simp add: step)
  also note IH
  finally show ?case
    by (simp only: idx foldl_Cons append_assoc append_Cons append_Nil nth_append_length)
qed

lemma update_loop_batch:
  assumes "\<forall>x \<in> set X. length x = length w" and "length X \<le> length out"
    and "length X \<le> length L"
  shows "update_loop 0 X out L lr w = Inr (batch_chain X L lr out w)"
  using update_loop_ok [of X w "[]" out L lr] assms by (simp add: batch_chain_def)

lemma length_batch_chain_aux:
  "\<forall>i \<in> set js. i < length X \<Longrightarrow> \<forall>x \<in> set X. length x = length w \<Longrightarrow>
   length (foldl (\<lambda>w i. adjust (out ! i) (L ! i) (X ! i) w lr) w js) = length w"
  by (induction js arbitrary: w) (simp_all add: length_adjust)

lemma length_batch_step:
  "\<forall>x \<in> set X. length x = length w \<Longrightarrow> length (batch_step X L thr lr w) = length w"
  by (simp add: batch_step_def batch_chain_def length_batch_chain_aux)

lemma batch_events_shift:
  "batch_events X L thr lr w (Suc k) = batch_events X L thr lr (batch_step X L thr lr w) k"
  by (simp add: batch_events_def weights_at_def funpow_swap1)

lemma trace_Suc:
  "concat (map (batch_events X L thr lr w) [0..<Suc n]) =
     batch_events X L thr lr w 0 @
     concat (map (batch_events X L thr lr (batch_step X L thr lr w)) [0..<n])"
proof -
  have "[0..<Suc n] = 0 # map Suc [0..<n]"
    by (simp add: upt_conv_Cons map_Suc_upt del: upt_Suc)
  then show ?thesis
    by (simp add: batch_events_shift comp_def del: upt_Suc)
qed

lemma batch_loop_ok:
  assumes "\<forall>x \<in> set X. length x = length w" and "length L = length X"
  shows "batch_loop n X L thr lr w out =
     (Inr PyNone, out @ concat (map (batch_events X L thr lr w) [0..<n]))"
  using assms(1)
proof (induction n arbitrary: w out)
  case 0
  then show ?case by simp
next
  case (Suc n)
  let ?o = "batch_outputs X w thr"
  let ?w' = "batch_step X L thr lr w"
  have o: "output_loop X w thr [] = Inr ?o"
    using Suc.prems by (simp add: output_loop_ok)
  have u: "update_loop 0 X ?o L lr w = Inr ?w'"
    using Suc.prems assms(2) by (simp add: update_loop_batch batch_outputs_def batch_step_def)
  have dims: "\<forall>x \<in> set X. length x = length ?w'"
    using Suc.prems by (simp add: length_batch_step)
  have ev: "batch_events X L thr lr w 0 = [PreBatch w, PostBatch ?w' ?o L]"
    by (simp add: batch_events_def weights_at_def)
  have "batch_loop (Suc n) X L thr lr w out =
     batch_loop n X L thr lr ?w' ((out @ [PreBatch w]) @ [PostBatch ?w' ?o L])"
    by (simp add: o u)
  also have "\<dots> = (Inr PyNone, ((out @ [PreBatch w]) @ [PostBatch ?w' ?o L]) @
       concat (map (batch_events X L thr lr ?w') [0..<n]))"
    by (rule Suc.IH [OF dims])
  finally show ?case
    by (simp only: trace_Suc ev append_assoc append_Cons append_Nil)
qed

text \<open>
  A run on an example of another dimension than the weights does not reach the end of its
  first batch: it raises the \<^verbatim>\<open>ValueError\<close> of \<^verbatim>\<open>np.dot\<close>, having printed the first line only.
\<close>

lemma output_loop_not_aligned:
  "\<exists>x \<in> set X. length x \<noteq> length w \<Longrightarrow> output_loop X w thr acc = Inl ValueError"
proof (induction X arbitrary: acc)
  case Nil
  then show ?case by simp
next
  case (Cons x X)
  show ?case
  proof (cases "length x = length w")
    case True
    with Cons.prems have "\<exists>x \<in> set X. length x \<noteq> length w" by simp
    then show ?thesis
      using True by (simp add: Cons.IH perceptron_aligned)
  next
    case False
    then show ?thesis by (simp add: perceptron_not_aligned)
  qed
qed

lemma train_perceptron_not_aligned:
  assumes "0 < num_batches" and "\<exists>x \<in> set X. length x \<noteq> length w"
  shows "train_perceptron X L w thr num_batches lr = (Inl ValueError, [PreBatch w])"
proof -
  from assms(1) obtain n where n: "nat num_batches = Suc n"
    by (cases "nat num_batches") auto
  show ?thesis
    by (simp add: train_perceptron_def n output_loop_not_aligned [OF assms(2)])
qed

section \<open>The trace of a run\<close>

lemma printed_outputs_append:
  "printed_outputs (xs @ ys) = printed_outputs xs @ printed_outputs ys"
  by (induction xs rule: printed_outputs.induct) simp_all





section \<open>The two datasets\<close>










section \<open>The store and binary64\<close>

lemma adjust_weights_store_loop_ok:
  assumes "nw < length s" and "iw < length s" and "iw \<noteq> nw"
    and "i + length xs \<le> length (s ! iw)"
  shows "adjust_weights_store_loop po eo iw lr nw i xs s =
     (Inr (), s[nw := s ! nw @ map2 (\<lambda>w x. w + (eo - po) * x * lr) (drop i (s ! iw)) xs])"
  using assms
proof (induction xs arbitrary: i s)
  case Nil
  then show ?case by simp
next
  case (Cons x xs)
  let ?v = "s ! iw ! i + (eo - po) * x * lr"
  let ?s = "s[nw := s ! nw @ [?v]]"
  from Cons.prems have i: "i < length (s ! iw)" by simp
  have same: "?s ! iw = s ! iw"
    using Cons.prems by simp
  have d: "drop i (s ! iw) = s ! iw ! i # drop (Suc i) (s ! iw)"
    using i by (simp add: Cons_nth_drop_Suc)
  have "adjust_weights_store_loop po eo iw lr nw (Suc i) xs ?s =
     (Inr (), ?s[nw := ?s ! nw @ map2 (\<lambda>w x. w + (eo - po) * x * lr) (drop (Suc i) (?s ! iw)) xs])"
    using Cons.prems by (intro Cons.IH) (simp_all add: same)
  then show ?case
    using i Cons.prems(1) by (simp add: same d)
qed

lemma adjust_weights_store_ok:
  assumes "given_input < length s" and "input_weights < length s"
    and "length (s ! given_input) = length (s ! input_weights)"
  shows "\<exists>arr s'.
     adjust_weights_store s perceptron_output expected_output given_input input_weights learning_rate
       = (Inr arr, s')
     \<and> length s \<le> arr \<and> arr < length s'
     \<and> take (length s) s' = s
     \<and> length (s' ! arr) = length (s ! input_weights)
     \<and> (\<forall>i < length (s ! input_weights).
           s' ! arr ! i =
             s ! input_weights ! i
               + (expected_output - perceptron_output) * (s ! given_input ! i) * learning_rate)
     \<and> adjust_weights perceptron_output expected_output (s ! given_input) (s ! input_weights)
           learning_rate = Inr (s' ! arr)"
proof -
  let ?s1 = "s @ [[]]"
  let ?new = "map2 (\<lambda>w x. w + (expected_output - perceptron_output) * x * learning_rate)
                (s ! input_weights) (s ! given_input)"
  have loop: "adjust_weights_store_loop perceptron_output expected_output input_weights learning_rate
       (length s) 0 (?s1 ! given_input) ?s1 = (Inr (), s @ [?new])"
    using assms
    by (subst adjust_weights_store_loop_ok) (simp_all add: nth_append)
  have call: "adjust_weights_store s perceptron_output expected_output given_input input_weights
       learning_rate = (Inr (Suc (length s)), s @ [?new, ?new])"
    by (simp add: adjust_weights_store_def alloc_def loop)
  have pure: "adjust_weights perceptron_output expected_output (s ! given_input) (s ! input_weights)
       learning_rate = Inr ?new"
    using assms(3) by (simp add: adjust_weights_eq adjust_def)
  show ?thesis
    using assms unfolding call pure
    by (simp add: nth_append)
qed

lemma bit_length_simps [simp]:
  "bit_length 0 = 0"
  "bit_length 1 = 1"
  "bit_length (numeral Num.One) = 1"
  "bit_length (numeral (Num.Bit0 k)) = 1 + bit_length (numeral k)"
  "bit_length (numeral (Num.Bit1 k)) = 1 + bit_length (numeral k)"
  "bit_length (- numeral k) = 0"
  by (simp_all add: bit_length.simps [of 0] bit_length.simps [of 1] bit_length.simps [of "numeral _"]
      bit_length.simps [of "- numeral _"])


lemmas b64_eval = b64_sub_def b64_round_def floor_log2_def round_half_even_def Let_def

lemma example_input_b64_value:
  "example_input_b64 = [Finite 1, Finite (3602879701896397 / 2 ^ 54), Finite (3602879701896397 / 2 ^ 55),
      Finite (3602879701896397 / 2 ^ 56), Finite (3602879701896397 / 2 ^ 54)]"
  by (simp add: example_input_b64_def b64_eval)

lemma example_weights_b64_value:
  "example_weights_b64 = [Finite (3602879701896397 / 2 ^ 54), Finite (8646911284551352 / 2 ^ 56),
      Finite (7205759403792794 / 2 ^ 54), Finite (5404319552844595 / 2 ^ 53), Finite (8106479329266893 / 2 ^ 53)]"
  by (simp add: example_weights_b64_def b64_eval)

lemma adjust_weights_b64_loop_ok:
  "i + length xs \<le> length iw \<Longrightarrow>
   adjust_weights_b64_loop po eo iw lr i xs acc =
     Inr (acc @ map2 (\<lambda>w x. b64_add w (b64_mul (b64_mul (b64_sub eo po) x) lr)) (drop i iw) xs)"
proof (induction xs arbitrary: i acc)
  case Nil
  then show ?case by simp
next
  case (Cons x xs)
  from Cons.prems have i: "i < length iw" and rest: "Suc i + length xs \<le> length iw"
    by simp_all
  from i have d: "drop i iw = iw ! i # drop (Suc i) iw"
    by (simp add: Cons_nth_drop_Suc)
  show ?case
    using i by (simp add: Cons.IH [OF rest] d)
qed

lemma adjust_weights_b64_entries:
  assumes "length xs = length ws"
  shows "\<exists>v. adjust_weights_b64 po eo xs ws lr = Inr v \<and> length v = length ws
     \<and> (\<forall>i < length ws. v ! i = b64_add (ws ! i) (b64_mul (b64_mul (b64_sub eo po) (xs ! i)) lr))"
  using assms by (simp add: adjust_weights_b64_def adjust_weights_b64_loop_ok)

text \<open>
  \<open>floor_log2\<close> is the binary exponent, and \<open>b64_round\<close> returns a number with a significand
  of at most 53 bits that is within half a unit in the last place of its argument.
\<close>

lemma bit_length_nonneg: "0 \<le> bit_length n"
proof (induction n rule: bit_length.induct)
  case (1 n)
  then show ?case by (simp add: bit_length.simps [of n])
qed

lemma bit_length_pos: "0 < n \<Longrightarrow> 0 < bit_length n"
  using bit_length_nonneg [of "n div 2"] by (simp add: bit_length.simps [of n])

lemma bit_length_bounds:
  "0 < n \<Longrightarrow> 2 ^ nat (bit_length n - 1) \<le> n \<and> n < 2 ^ nat (bit_length n)"
proof (induction n rule: bit_length.induct)
  case (1 n)
  show ?case
  proof (cases "n div 2 = 0")
    case True
    with "1.prems" have "n = 1" by presburger
    then show ?thesis by (simp add: bit_length.simps [of 1] bit_length.simps [of 0])
  next
    case False
    with "1.prems" have pos: "0 < n div 2" by presburger
    let ?b = "bit_length (n div 2)"
    from "1.IH" "1.prems" pos
    have lo: "2 ^ nat (?b - 1) \<le> n div 2" and hi: "n div 2 < 2 ^ nat ?b"
      by simp_all
    have b: "0 < ?b" using pos by (rule bit_length_pos)
    have bl: "bit_length n = 1 + ?b"
      using "1.prems" by (simp add: bit_length.simps [of n])
    have e1: "nat (bit_length n - 1) = Suc (nat (?b - 1))"
      using b bl by (simp add: Suc_nat_eq_nat_zadd1)
    have e2: "nat (bit_length n) = Suc (nat ?b)"
      using b bl by (simp add: Suc_nat_eq_nat_zadd1 add.commute)
    have "2 * (n div 2) \<le> n" "n < 2 * (n div 2) + 2" by presburger+
    moreover have "n div 2 + 1 \<le> 2 ^ nat ?b" using hi by simp
    ultimately show ?thesis
      unfolding e1 e2 using lo by simp
  qed
qed

lemma floor_log2_bounds:
  assumes "0 < x"
  shows "2 powi floor_log2 x \<le> x \<and> x < 2 powi (floor_log2 x + 1)"
proof (cases "1 \<le> x")
  case True
  let ?n = "\<lfloor>x\<rfloor>"
  have n: "0 < ?n" using True by simp
  have e: "floor_log2 x = bit_length ?n - 1"
    using True by (simp add: floor_log2_def)
  have b: "0 < bit_length ?n" using n by (rule bit_length_pos)
  from bit_length_bounds [OF n]
  have lo: "2 ^ nat (bit_length ?n - 1) \<le> ?n" and hi: "?n < 2 ^ nat (bit_length ?n)"
    by simp_all
  have "(2::real) powi (bit_length ?n - 1) = 2 ^ nat (bit_length ?n - 1)"
    using b by (simp add: power_int_def)
  also have "\<dots> = of_int (2 ^ nat (bit_length ?n - 1))" by simp
  also have "\<dots> \<le> of_int ?n" using lo by (simp only: of_int_le_iff)
  also have "\<dots> \<le> x" by simp
  finally have 1: "2 powi floor_log2 x \<le> x" by (simp add: e)
  have "?n + 1 \<le> 2 ^ nat (bit_length ?n)" using hi by simp
  then have up: "of_int (?n + 1) \<le> (of_int (2 ^ nat (bit_length ?n)) :: real)"
    by (simp only: of_int_le_iff)
  have "x < of_int (?n + 1)" by linarith
  from this up have "x < of_int (2 ^ nat (bit_length ?n))" by (rule less_le_trans)
  then have "x < 2 ^ nat (bit_length ?n)" by simp
  also have "\<dots> = 2 powi (bit_length ?n)"
    using b by (simp add: power_int_def)
  finally have 2: "x < 2 powi (floor_log2 x + 1)" by (simp add: e)
  from 1 2 show ?thesis by simp
next
  case False
  let ?m = "\<lceil>1 / x\<rceil>"
  let ?k = "bit_length (?m - 1)"
  from False assms have y: "1 < 1 / x" by simp
  then have m: "0 < ?m - 1" by (simp add: less_ceiling_iff)
  have e: "floor_log2 x = - ?k"
    using False by (simp add: floor_log2_def)
  have k: "0 < ?k" using m by (rule bit_length_pos)
  from bit_length_bounds [OF m]
  have lo: "2 ^ nat (?k - 1) \<le> ?m - 1" and hi: "?m - 1 < 2 ^ nat ?k"
    by simp_all
  have "?m \<le> 2 ^ nat ?k" using hi by simp
  then have up: "of_int ?m \<le> (of_int (2 ^ nat ?k) :: real)" by (simp only: of_int_le_iff)
  have "1 / x \<le> of_int ?m" by simp
  from this up have "1 / x \<le> of_int (2 ^ nat ?k)" by (rule order_trans)
  then have "1 / x \<le> 2 ^ nat ?k" by simp
  then have "1 / 2 ^ nat ?k \<le> x"
    using assms by (simp add: field_simps)
  moreover have "(2::real) powi (- ?k) = 1 / 2 ^ nat ?k"
    using k by (simp add: power_int_def field_simps)
  ultimately have 1: "2 powi floor_log2 x \<le> x" by (simp add: e)
  have dn: "(of_int (2 ^ nat (?k - 1)) :: real) \<le> of_int (?m - 1)"
    using lo by (simp only: of_int_le_iff)
  have "of_int (?m - 1) < 1 / x" by linarith
  with dn have "of_int (2 ^ nat (?k - 1)) < 1 / x" by (rule le_less_trans)
  then have "2 ^ nat (?k - 1) < 1 / x" by simp
  then have "x < 1 / 2 ^ nat (?k - 1)"
    using assms by (simp add: field_simps)
  moreover have "(2::real) powi (- ?k + 1) = 1 / 2 ^ nat (?k - 1)"
  proof -
    have "- ?k + 1 = - (?k - 1)" by simp
    moreover have "(2::real) powi (- (?k - 1)) = 1 / 2 ^ nat (?k - 1)"
      using k by (simp add: power_int_def field_simps)
    ultimately show ?thesis by simp
  qed
  ultimately have 2: "x < 2 powi (floor_log2 x + 1)" by (simp add: e)
  from 1 2 show ?thesis by simp
qed


lemma round_half_even_near: "\<bar>of_int (round_half_even z) - z\<bar> \<le> 1 / 2"
  unfolding round_half_even_def Let_def by (simp; linarith)

lemma scaled_error:
  fixes u :: real
  assumes "0 < u"
  shows "\<bar>n * u - x\<bar> = \<bar>n - x / u\<bar> * u"
proof -
  have "n * u - x = (n - x / u) * u"
    using assms by (simp add: field_simps)
  then show ?thesis
    using assms by (simp add: abs_mult)
qed

lemma b64_round_nearest:
  assumes "b64_round x = Finite y"
  shows "\<exists>n e. - 1022 \<le> e \<and> y = of_int n * 2 powi (e - 52) \<and> \<bar>n\<bar> \<le> 2 ^ 53
     \<and> \<bar>y - x\<bar> \<le> 2 powi (e - 52) / 2"
proof (cases "x = 0")
  case True
  with assms have "y = 0" by (simp add: b64_round_def)
  with True show ?thesis
    by (intro exI [of _ 0] exI [of _ "- 1022"]) simp
next
  case False
  define e where "e = max (floor_log2 \<bar>x\<bar>) (- 1022)"
  define u :: real where "u = 2 powi (e - 52)"
  define n where "n = round_half_even (x / u)"
  have u: "0 < u" by (simp add: u_def)
  have e: "- 1022 \<le> e" by (simp add: e_def)
  from assms False have y: "y = of_int n * u"
    by (simp add: b64_round_def Let_def e_def u_def n_def split: if_splits)
  have near: "\<bar>of_int n - x / u\<bar> \<le> 1 / 2"
    unfolding n_def by (rule round_half_even_near)
  have "\<bar>y - x\<bar> = \<bar>of_int n - x / u\<bar> * u"
    unfolding y using u by (rule scaled_error)
  also have "\<dots> \<le> (1 / 2) * u"
    using near u by (intro mult_right_mono) simp_all
  finally have err: "\<bar>y - x\<bar> \<le> u / 2" by simp
  have "\<bar>x\<bar> < 2 powi (floor_log2 \<bar>x\<bar> + 1)"
    using floor_log2_bounds [of "\<bar>x\<bar>"] False by simp
  also have "\<dots> \<le> 2 powi (e + 1)"
    unfolding e_def by (intro power_int_increasing) simp_all
  also have "\<dots> = 2 powi 53 * u"
  proof -
    have "e + 1 = 53 + (e - 52)" by simp
    then have "(2::real) powi (e + 1) = 2 powi (53 + (e - 52))" by (rule arg_cong)
    also have "\<dots> = 2 powi 53 * 2 powi (e - 52)" by (rule power_int_add) simp
    finally show ?thesis by (simp only: u_def)
  qed
  finally have "\<bar>x\<bar> < 2 powi 53 * u" .
  then have "\<bar>x\<bar> / u < 2 ^ 53"
    using u by (simp add: field_simps)
  then have "\<bar>x / u\<bar> < 2 ^ 53" using u by (simp add: abs_divide)
  with near have "\<bar>(of_int n :: real)\<bar> < 2 ^ 53 + 1" by linarith
  then have "(of_int \<bar>n\<bar> :: real) < of_int (2 ^ 53 + 1)" by simp
  then have "\<bar>n\<bar> < 2 ^ 53 + 1"
    by (simp only: of_int_less_iff)
  then have n: "\<bar>n\<bar> \<le> 2 ^ 53" by simp
  show ?thesis
    using y n err e unfolding u_def by (intro exI [of _ n] exI [of _ e]) simp
qed

section \<open>The claims\<close>

text \<open>
  C1. When every example has the dimension of the initial weight vector and there is one
  label per example, \<open>train_perceptron\<close> ends normally after exactly \<open>numBatches\<close> batches (none
  when \<open>numBatches\<close> is negative): its printed trace is, for \<open>k = 0, \<dots>, numBatches - 1\<close> in
  order, the weights batch \<open>k\<close> starts from, then the weights at the end of the batch together
  with the batch's outputs. The outputs of a batch are all computed against the weights the
  batch starts from; the weights at its end are those of the chain of \<open>adjust\<close>, one per example
  in input order; the next batch starts from them. No batch is skipped, whatever the outputs
  or the weights are.
\<close>

theorem train_perceptron_batches:
  assumes "\<forall>example \<in> set examples. length example = length initialWeights"
    and "length labels = length examples"
  shows "train_perceptron examples labels initialWeights threshold numBatches learningRate =
     (Inr PyNone,
      concat (map (batch_events examples labels threshold learningRate initialWeights)
                [0..<nat numBatches]))"
  using batch_loop_ok [OF assms] by (simp add: train_perceptron_def)

theorem train_perceptron_batches_witness:
  "train_perceptron [[0, 1], [1, 1]] [1, 1] [0, 0] (1 / 2) 2 1 =
     (Inr PyNone,
      [PreBatch [0, 0], PostBatch [1, 2] [0, 0] [1, 1],
       PreBatch [1, 2], PostBatch [1, 2] [1, 1] [1, 1]])"
  using train_perceptron_batches [of "[[0, 1], [1, 1]]" "[0, 0]" "[1, 1]" "1 / 2" 2 1]
  by (simp add: batch_events_def weights_at_def batch_step_def batch_chain_def
      batch_outputs_def evaluate_def inner_def adjust_def eval_nat_numeral)




text \<open>
  C3. Let \<open>given_input\<close> and \<open>input_weights\<close> be two sequences of the store, of the same length
  (they may be the same object). \<open>adjust_weights\<close> ends normally and returns a new object,
  at an address that was not allocated before the call; its length is that of the weights
  and entry \<open>i\<close> is \<open>weights[i] + (expected - observed) * example[i] * learningRate\<close>. Every
  object that existed before the call, \<open>input_weights\<close> among them, is what it was. The value
  returned is the one the function on values, which \<open>train_perceptron\<close> calls, computes.
  In binary64 the entries are the same expression, each operation rounded.
\<close>

theorem adjust_weights_new_vector:
  assumes "given_input < length s" and "input_weights < length s"
    and "length (s ! given_input) = length (s ! input_weights)"
  shows "(\<exists>arr s'.
     adjust_weights_store s perceptron_output expected_output given_input input_weights learning_rate
       = (Inr arr, s')
     \<and> length s \<le> arr \<and> arr < length s'
     \<and> take (length s) s' = s
     \<and> length (s' ! arr) = length (s ! input_weights)
     \<and> (\<forall>i < length (s ! input_weights).
           s' ! arr ! i =
             s ! input_weights ! i
               + (expected_output - perceptron_output) * (s ! given_input ! i) * learning_rate)
     \<and> adjust_weights perceptron_output expected_output (s ! given_input) (s ! input_weights)
           learning_rate = Inr (s' ! arr))
   \<and> (length example = length weights \<longrightarrow>
       (\<exists>v. adjust_weights_b64 observed expected example weights learningRate = Inr v
          \<and> length v = length weights
          \<and> (\<forall>i < length weights.
                v ! i =
                  b64_add (weights ! i)
                    (b64_mul (b64_mul (b64_sub expected observed) (example ! i)) learningRate))))"
  using adjust_weights_store_ok [OF assms] adjust_weights_b64_entries by blast

theorem adjust_weights_new_vector_witness:
  "(\<exists>arr s'.
     adjust_weights_store [[1, 2 / 10], [2 / 10, 12 / 100]] 1 0 0 1 1 = (Inr arr, s')
     \<and> 2 \<le> arr
     \<and> take 2 s' = [[1, 2 / 10], [2 / 10, 12 / 100]]
     \<and> s' ! arr = [- 8 / 10, - 8 / 100])
   \<and> (\<exists>v. adjust_weights_b64 (Finite 1) (Finite 0) [Finite 1] [Finite 3] (Finite 1) = Inr v
          \<and> length v = 1 \<and> v ! 0 = Finite 2)"
  using adjust_weights_new_vector [where given_input = 0 and input_weights = 1
      and s = "[[1, 2 / 10], [2 / 10, 12 / 100]]"
      and perceptron_output = 1 and expected_output = 0 and learning_rate = 1
      and example = "[Finite 1]" and weights = "[Finite 3]"
      and observed = "Finite 1" and expected = "Finite 0" and learningRate = "Finite 1"]
  by (auto simp: adjust_weights_def numeral_2_eq_2 b64_eval)

text \<open>
  C4, as stated, fails: the body of \<^verbatim>\<open>train_perceptron\<close> has no \<^verbatim>\<open>return\<close>, so a call returns
  \<^verbatim>\<open>None\<close>. One batch on the example \<open>[0, 1]\<close> with label \<open>1\<close> from the weights \<open>[0, 0]\<close> ends
  with the weights \<open>[0, 1]\<close>, which are printed, and returns \<^verbatim>\<open>None\<close>.
\<close>

theorem train_returns_none_counterexample:
  "train_perceptron [[0, 1]] [1] [0, 0] (1 / 2) 1 1 =
     (Inr PyNone, [PreBatch [0, 0], PostBatch [0, 1] [0] [1]])
   \<and> fst (train_perceptron [[0, 1]] [1] [0, 0] (1 / 2) 1 1) \<noteq> Inr (PyArray [0, 1])"
  by (simp add: train_perceptron_def perceptron_def np_dot_def adjust_weights_def)

text \<open>
  C4, amended. For every valid input (every example of the dimension of the initial
  weights, one label per example) \<open>train_perceptron\<close> returns \<^verbatim>\<open>None\<close>; the weight vector as of
  the end of the last batch is printed, in the last line of the trace, when there is at
  least one batch. The trace is the only result of a run.
\<close>

theorem train_prints_final_weights:
  assumes "\<forall>example \<in> set examples. length example = length initialWeights"
    and "length labels = length examples"
  shows "fst (train_perceptron examples labels initialWeights threshold numBatches learningRate)
       = Inr PyNone
     \<and> (0 < numBatches \<longrightarrow>
         (\<exists>outputs.
            last (snd (train_perceptron examples labels initialWeights threshold numBatches
                         learningRate))
            = PostBatch
                (weights_at examples labels threshold learningRate initialWeights (nat numBatches))
                outputs labels))"
proof -
  have tr: "train_perceptron examples labels initialWeights threshold numBatches learningRate =
     (Inr PyNone,
      [] @ concat (map (batch_events examples labels threshold learningRate initialWeights)
                [0..<nat numBatches]))"
    unfolding train_perceptron_def using assms by (rule batch_loop_ok)
  have "\<exists>outputs. last (concat (map (batch_events examples labels threshold learningRate initialWeights)
                [0..<nat numBatches]))
      = PostBatch
          (weights_at examples labels threshold learningRate initialWeights (nat numBatches))
          outputs labels" if "0 < numBatches"
  proof -
    from that obtain m where m: "nat numBatches = Suc m"
      by (cases "nat numBatches") auto
    show ?thesis
      unfolding m by (simp add: batch_events_def)
  qed
  then show ?thesis
    by (simp add: tr)
qed

theorem train_prints_final_weights_witness:
  "fst (train_perceptron [[0, 1], [1, 1]] [1, 1] [0, 0] (1 / 2) 2 1) = Inr PyNone
   \<and> (\<exists>outputs. last (snd (train_perceptron [[0, 1], [1, 1]] [1, 1] [0, 0] (1 / 2) 2 1))
         = PostBatch [1, 2] outputs [1, 1])"
  using train_prints_final_weights [of "[[0, 1], [1, 1]]" "[0, 0]" "[1, 1]" "1 / 2" 2 1]
  by (simp add: weights_at_def batch_step_def batch_chain_def
      batch_outputs_def evaluate_def inner_def adjust_def eval_nat_numeral)

text \<open>
  C5, as stated, fails: neither function checks dimensions. \<open>adjust_weights\<close> on an example
  of length \<open>1\<close> and weights of length \<open>2\<close> returns a vector of length \<open>1\<close>.
\<close>

theorem dimension_mismatch_counterexample:
  "adjust_weights 1 0 [1] [1, 2] 1 = Inr [0]"
  by (simp add: adjust_weights_def)

text \<open>
  C5, amended. On an example and a weight vector of different lengths, \<open>perceptron\<close> raises
  the \<^verbatim>\<open>ValueError\<close> of \<^verbatim>\<open>np.dot\<close>. \<open>adjust_weights\<close> raises \<^verbatim>\<open>IndexError\<close> when the weight vector
  is the shorter one; when it is the longer one, \<open>adjust_weights\<close> returns the adjusted
  weights of the example's indices, a vector of the example's length, and no error.
\<close>

theorem dimension_mismatch:
  "(length example \<noteq> length weights \<longrightarrow>
      perceptron example weights threshold = Inl ValueError)
   \<and> (length weights < length example \<longrightarrow>
      adjust_weights observed expected example weights learningRate = Inl IndexError)
   \<and> (length example < length weights \<longrightarrow>
      adjust_weights observed expected example weights learningRate
        = Inr (adjust observed expected example weights learningRate)
      \<and> length (adjust observed expected example weights learningRate) = length example)"
  by (simp add: perceptron_not_aligned adjust_weights_eq length_adjust)

theorem dimension_mismatch_witness:
  "perceptron [1, 2] [1] 0 = Inl ValueError
   \<and> perceptron [1] [1, 2] 0 = Inl ValueError
   \<and> adjust_weights 1 0 [1, 2] [1] 1 = Inl IndexError
   \<and> adjust_weights 1 0 [1] [1, 2] 1 = Inr [0]"
  using dimension_mismatch [of "[1, 2]" "[1]" 0 1 0 1]
    dimension_mismatch [of "[1]" "[1, 2]" 0 1 0 1]
  by (simp add: adjust_def)







text \<open>
  C9, as stated, fails in the arithmetic of the code. In binary64, \<^verbatim>\<open>.12 + -.2\<close>,
  \<^verbatim>\<open>.4 + -.1\<close> and \<^verbatim>\<open>.6 + -.05\<close> are not the numbers that the literals \<^verbatim>\<open>-0.08\<close>, \<^verbatim>\<open>0.3\<close> and
  \<^verbatim>\<open>0.55\<close> denote, so the vector returned is not equal to \<^verbatim>\<open>[-0.8, -0.08, 0.3, 0.55, 0.7]\<close>.
  The copy of the notebook that keeps its outputs records this run: it prints
  \<^verbatim>\<open>new_weight is -0.08000000000000002\<close>, \<^verbatim>\<open>new_weight is 0.30000000000000004\<close> and
  \<^verbatim>\<open>new_weight is 0.5499999999999999\<close>; numpy then shows the array to eight digits.
\<close>

theorem adjust_weights_golden_counterexample:
  "adjust_weights_b64 (Finite 1) (Finite 0) example_input_b64 example_weights_b64 (Finite 1) \<noteq>
     Inr [b64_round (- 8 / 10), b64_round (- 8 / 100),
          b64_round (3 / 10), b64_round (55 / 100),
          b64_round (7 / 10)]"
  unfolding example_input_b64_value example_weights_b64_value
  by (simp add: adjust_weights_b64_def b64_eval)

text \<open>
  C9, amended. \<open>adjust_weights\<close> with observed \<open>1\<close>, expected \<open>0\<close>, learning rate \<open>1\<close>,
  \<^verbatim>\<open>example_input\<close> and \<^verbatim>\<open>example_weights\<close> returns \<open>[-0.8, -0.08, 0.3, 0.55, 0.7]\<close> exactly in
  exact arithmetic. In binary64 it returns, deterministically, the five numbers that
  Python writes \<^verbatim>\<open>[-0.8, -0.08000000000000002, 0.30000000000000004, 0.5499999999999999, 0.7]\<close>.
\<close>

theorem adjust_weights_golden:
  "adjust_weights 1 0 example_input example_weights 1
     = Inr [- 8 / 10, - 8 / 100, 3 / 10, 55 / 100, 7 / 10]
   \<and> adjust_weights_b64 (Finite 1) (Finite 0) example_input_b64 example_weights_b64 (Finite 1) =
     Inr [b64_round (- 8 / 10), b64_round (- 8000000000000002 / 10 ^ 17),
          b64_round (30000000000000004 / 10 ^ 17), b64_round (5499999999999999 / 10 ^ 16),
          b64_round (7 / 10)]"
  unfolding example_input_b64_value example_weights_b64_value
  by (simp add: adjust_weights_def example_input_def example_weights_def
      adjust_weights_b64_def b64_eval)

text \<open>
  C10. The bias of \<open>perceptron\<close> is the constant \<open>0.2\<close> of its body: \<open>perceptron\<close> is \<open>evaluate\<close> with
  a bias \<open>b\<close> on all inputs exactly when \<open>b\<close> is \<open>0.2\<close>, whatever bias a caller has in mind. And
  every training run uses it: on a valid input, the outputs that batch \<open>k\<close> prints are
  \<open>evaluate\<close> with bias \<open>0.2\<close> of each example against the weights the batch starts from.
  (The notebook also assigns a global \<^verbatim>\<open>bias_weight\<close>, a random number below \<open>0.001\<close>; the
  assignment in the body of \<^verbatim>\<open>perceptron\<close> makes the name local there, so the global is
  never read.)
\<close>

theorem bias_is_fixed:
  "((\<forall>input weights threshold. length input = length weights \<longrightarrow>
        perceptron input weights threshold = Inr (evaluate input weights bias threshold))
     \<longleftrightarrow> bias = 2 / 10)
   \<and> ((\<forall>example \<in> set examples. length example = length initialWeights)
        \<and> length labels = length examples \<and> k < nat numBatches \<longrightarrow>
       printed_outputs
         (snd (train_perceptron examples labels initialWeights threshold numBatches learningRate)) ! k
       = map (\<lambda>example.
            evaluate example
              (weights_at examples labels threshold learningRate initialWeights k) (2 / 10) threshold)
           examples)"
proof (intro conjI impI iffI allI)
  assume a: "\<forall>input weights threshold. length input = length weights \<longrightarrow>
        perceptron input weights threshold = Inr (evaluate input weights bias threshold)"
  show "bias = 2 / 10"
  proof (rule ccontr)
    assume ne: "bias \<noteq> 2 / 10"
    from a have 1: "perceptron [] [] (2 / 10) = Inr (evaluate [] [] bias (2 / 10))"
      and 2: "perceptron [] [] bias = Inr (evaluate [] [] bias bias)"
      by simp_all
    from 1 2 ne show False
      by (simp add: perceptron_def np_dot_def evaluate_def inner_def split: if_splits)
  qed
next
  fix input weights :: "real list" and threshold :: real
  assume b: "bias = 2 / 10" and l: "length input = length weights"
  show "perceptron input weights threshold = Inr (evaluate input weights bias threshold)"
    unfolding b using l by (rule perceptron_aligned)
next
  assume a: "(\<forall>example \<in> set examples. length example = length initialWeights)
        \<and> length labels = length examples \<and> k < nat numBatches"
  have tr: "snd (train_perceptron examples labels initialWeights threshold numBatches learningRate) =
      concat (map (batch_events examples labels threshold learningRate initialWeights)
                [0..<nat numBatches])"
    using a batch_loop_ok [of examples initialWeights labels "nat numBatches" threshold learningRate "[]"]
    by (simp add: train_perceptron_def)
  have po: "printed_outputs (concat (map (batch_events examples labels threshold learningRate initialWeights) ks))
     = map (\<lambda>k. batch_outputs examples
              (weights_at examples labels threshold learningRate initialWeights k) threshold) ks" for ks
    by (induction ks) (simp_all add: printed_outputs_append batch_events_def)
  show "printed_outputs
         (snd (train_perceptron examples labels initialWeights threshold numBatches learningRate)) ! k
       = map (\<lambda>example.
            evaluate example
              (weights_at examples labels threshold learningRate initialWeights k) (2 / 10) threshold)
           examples"
    using a by (simp add: tr po batch_outputs_def)
qed

theorem bias_is_fixed_witness:
  "perceptron [1] [1] (12 / 10) = Inr (evaluate [1] [1] (2 / 10) (12 / 10))
   \<and> printed_outputs (snd (train_perceptron [[0, 1], [1, 1]] [1, 1] [0, 0] (1 / 2) 2 1)) ! 1
       = [evaluate [0, 1] [1, 2] (2 / 10) (1 / 2), evaluate [1, 1] [1, 2] (2 / 10) (1 / 2)]"
  using bias_is_fixed [of "2 / 10" "[[0, 1], [1, 1]]" "[0, 0]" "[1, 1]" 1 2 "1 / 2" 1]
  by (simp add: weights_at_def batch_step_def batch_chain_def
      batch_outputs_def evaluate_def inner_def adjust_def eval_nat_numeral)

end
